theory Spec2Isabelle
  imports Main
begin

section \<open>Python values, classes and descriptors\<close>

text \<open>
  The field generator of \<^verbatim>\<open>mongodbforms/fieldgenerator.py\<close> reads attributes of
  a mongoengine field object and builds a Django form field from them. The values
  it copies around are ordinary Python values; only their truth value, their
  equality with the members of \<^verbatim>\<open>EMPTY_VALUES\<close> and, for strings, their letters
  are ever inspected.
\<close>

datatype pyval =
    PNone
  | PBool bool
  | PInt int
  | PStr string
  | PRegex string
  | PTuple "pyval list"
  | PList "pyval list"
  | PDict "(pyval \<times> pyval) list"

text \<open>Truth value of a Python object, as \<^verbatim>\<open>if x:\<close> tests it.\<close>

fun truthy :: "pyval \<Rightarrow> bool" where
  "truthy PNone = False"
| "truthy (PBool b) = b"
| "truthy (PInt i) = (i \<noteq> 0)"
| "truthy (PStr s) = (s \<noteq> [])"
| "truthy (PRegex r) = True"
| "truthy (PTuple xs) = (xs \<noteq> [])"
| "truthy (PList xs) = (xs \<noteq> [])"
| "truthy (PDict kvs) = (kvs \<noteq> [])"

text \<open>
  The exceptions the module can meet: \<^verbatim>\<open>NotImplementedError\<close> is the one it raises
  itself, \<^verbatim>\<open>AttributeError\<close> comes from reading an attribute an object does not
  have, \<^verbatim>\<open>TypeError\<close> and \<^verbatim>\<open>ValueError\<close> from applying a builtin to a value of
  the wrong shape.
\<close>

datatype error = NotImplementedError | AttributeError | TypeError | ValueError

definition bind :: "error + 'a \<Rightarrow> ('a \<Rightarrow> error + 'b) \<Rightarrow> error + 'b" where
  "bind r k = (case r of Inl e \<Rightarrow> Inl e | Inr v \<Rightarrow> k v)"

text \<open>\<^verbatim>\<open>obj.attr\<close>: an attribute that is not there raises \<^verbatim>\<open>AttributeError\<close>.\<close>

definition getattr :: "'a option \<Rightarrow> error + 'a" where
  "getattr a = (case a of None \<Rightarrow> Inl AttributeError | Some v \<Rightarrow> Inr v)"

definition hasattr :: "'a option \<Rightarrow> bool" where
  "hasattr a = (a \<noteq> None)"

text \<open>
  A class, as far as the generator looks at it: \<^verbatim>\<open>__name__\<close> and \<^verbatim>\<open>__bases__\<close>
  (the direct bases, in declaration order).
\<close>

datatype pyclass = PyClass (cname: string) (cbases: "pyclass list")

text \<open>\<^verbatim>\<open>issubclass\<close>, which \<^verbatim>\<open>isinstance\<close> applies to the class of the object.\<close>

fun issubclass :: "pyclass \<Rightarrow> pyclass \<Rightarrow> bool" where
  "issubclass (PyClass n bs) d = (PyClass n bs = d \<or> (\<exists>b \<in> set bs. issubclass b d))"

definition object :: pyclass where
  "object = PyClass ''object'' []"

definition BaseField :: pyclass where
  "BaseField = PyClass ''BaseField'' [object]"

definition MongoReferenceField :: pyclass where
  "MongoReferenceField = PyClass ''ReferenceField'' [BaseField]"

definition MongoEmbeddedDocumentField :: pyclass where
  "MongoEmbeddedDocumentField = PyClass ''EmbeddedDocumentField'' [BaseField]"

text \<open>
  A field descriptor is a Python object: its class and the attributes the
  generator reads. \<open>None\<close> for an attribute means the object does not have it
  (\<^verbatim>\<open>hasattr\<close> is false and reading it raises); \<open>Some PNone\<close> is an attribute whose
  value is Python's \<^verbatim>\<open>None\<close>. The attribute \<^verbatim>\<open>field\<close> of a list or map descriptor
  is again a descriptor, \<^verbatim>\<open>document_type\<close> is the referenced document class, given
  by its name.
\<close>

datatype descriptor = Descriptor
  (cls: pyclass)
  (name: "pyval option")
  (verbose_name: "pyval option")
  (help_text: "pyval option")
  (required: "pyval option")
  (default_attr: "pyval option")
  (choices: "pyval option")
  (max_length: "pyval option")
  (min_length: "pyval option")
  (regex: "pyval option")
  (min_value: "pyval option")
  (max_value: "pyval option")
  (field: "descriptor option")
  (document_type: "string option")


section \<open>Strings\<close>

text \<open>
  \<^verbatim>\<open>str.lower\<close> and \<^verbatim>\<open>str.upper\<close> on the letters A to Z and a to z; every other
  character is left as it is. The generator lower-cases class names and the
  submitted value of a boolean choice.
\<close>

definition upper_letters :: string where
  "upper_letters = ''ABCDEFGHIJKLMNOPQRSTUVWXYZ''"

definition lower_letters :: string where
  "lower_letters = ''abcdefghijklmnopqrstuvwxyz''"

definition lower_char :: "char \<Rightarrow> char" where
  "lower_char c = (case map_of (zip upper_letters lower_letters) c of Some d \<Rightarrow> d | None \<Rightarrow> c)"

definition upper_char :: "char \<Rightarrow> char" where
  "upper_char c = (case map_of (zip lower_letters upper_letters) c of Some d \<Rightarrow> d | None \<Rightarrow> c)"

definition lower :: "string \<Rightarrow> string" where
  "lower s = map lower_char s"

text \<open>A text of ASCII characters only: the top bit of every character is clear.\<close>

definition ascii :: "string \<Rightarrow> bool" where
  "ascii s = list_all (\<lambda>c. \<not> digit7 c) s"

section \<open>Form fields\<close>

datatype form_class =
    MongoCharField | TypedChoiceField | EmailField | URLField | IntegerField
  | FloatField | DecimalField | BooleanField | DateTimeField | ReferenceField
  | MultipleChoiceField | DocumentMultipleChoiceField | ListField | MapField
  | FileField | ImageField | CharField | NoneType

text \<open>The bound methods handed to a choice field as its \<^verbatim>\<open>coerce\<close> argument.\<close>

datatype coercer = Coerce_string_field | Coerce_integer_field | Coerce_boolean_field

datatype widget = Textarea | CheckboxSelectMultiple

text \<open>
  What a constructor argument can be: a value copied from the descriptor, a
  coercion method, a widget class, the query manager \<^verbatim>\<open>document_type.objects\<close> of
  a document class, or a form-field class.
\<close>

datatype argval =
    AVal pyval
  | ACoerce coercer
  | AWidget widget
  | AObjects string
  | AClass form_class

text \<open>
  A form field is recorded as the call that made it: the class, the
  positional arguments and the keyword arguments.
\<close>

datatype formfield = FormField
  (form_class: form_class)
  (args: "argval list")
  (kwargs: "string \<rightharpoonup> argval")

type_synonym result = "error + formfield option"

section \<open>What the module takes from outside this file\<close>

text \<open>
  The generator is parametric in what is defined elsewhere:

  \<^item> Django's \<^verbatim>\<open>capfirst\<close> and \<^verbatim>\<open>get_verbose_name\<close>;

  \<^item> the constructors of the classes imported from the repository's own
    \<^verbatim>\<open>.fields\<close> module (\<^verbatim>\<open>MongoCharField\<close>, \<^verbatim>\<open>ReferenceField\<close>,
    \<^verbatim>\<open>DocumentMultipleChoiceField\<close>, \<^verbatim>\<open>ListField\<close>, \<^verbatim>\<open>MapField\<close>): \<open>fields_init\<close> gives
    the exception a constructor raises on its positional and keyword arguments,
    or \<open>None\<close> when it accepts them;

  \<^item> \<^verbatim>\<open>str.capitalize\<close> on texts with characters outside ASCII, where the result
    depends on the Unicode case tables.
\<close>

record environment =
  capfirst :: "string \<Rightarrow> string"
  get_verbose_name :: "string \<Rightarrow> string"
  fields_init :: "form_class \<Rightarrow> argval list \<Rightarrow> (string \<rightharpoonup> argval) \<Rightarrow> error option"
  unicode_capitalize :: "string \<Rightarrow> string"

text \<open>
  \<^verbatim>\<open>str.capitalize\<close>: on an ASCII text the first character is upper-cased and all
  the others are lower-cased; on any other text it is the Unicode-aware
  function of the language.
\<close>

definition capitalize :: "environment \<Rightarrow> string \<Rightarrow> string" where
  "capitalize dj s =
     (if ascii s then (case s of [] \<Rightarrow> [] | c # cs \<Rightarrow> upper_char c # map lower_char cs)
      else unicode_capitalize dj s)"

text \<open>The form-field classes of line 22, \<^verbatim>\<open>from .fields import ...\<close>.\<close>

definition fields_classes :: "form_class list" where
  "fields_classes = [MongoCharField, ReferenceField, DocumentMultipleChoiceField, ListField, MapField]"

text \<open>
  \<^verbatim>\<open>defaults.update(kwargs); return form_class(*args, **defaults)\<close>. The call of a
  constructor of \<^verbatim>\<open>.fields\<close> raises what \<open>fields_init\<close> says; the call of a class of
  \<^verbatim>\<open>django.forms\<close> is recorded as made.
\<close>

definition construct ::
  "environment \<Rightarrow> form_class \<Rightarrow> argval list \<Rightarrow> (string \<rightharpoonup> argval) \<Rightarrow> (string \<rightharpoonup> argval) \<Rightarrow> result" where
  "construct dj c as defaults kw =
     (let kws = defaults ++ kw in
      if c \<in> set fields_classes then
        (case fields_init dj c as kws of
           Some e \<Rightarrow> Inl e
         | None \<Rightarrow> Inr (Some (FormField c as kws)))
      else Inr (Some (FormField c as kws)))"

text \<open>\<^verbatim>\<open>form_field.__class__\<close>, where \<^verbatim>\<open>form_field\<close> may be \<^verbatim>\<open>None\<close>.\<close>

definition class_of :: "formfield option \<Rightarrow> form_class" where
  "class_of r = (case r of None \<Rightarrow> NoneType | Some ff \<Rightarrow> form_class ff)"

section \<open>Helpers of the generator\<close>

definition BLANK_CHOICE_DASH :: "pyval list" where
  "BLANK_CHOICE_DASH = [PTuple [PStr [], PStr ''---------'']]"

text \<open>\<^verbatim>\<open>list(x)\<close>\<close>

definition py_list :: "pyval \<Rightarrow> error + pyval list" where
  "py_list v = (case v of
       PList xs \<Rightarrow> Inr xs
     | PTuple xs \<Rightarrow> Inr xs
     | PStr s \<Rightarrow> Inr (map (\<lambda>c. PStr [c]) s)
     | PDict kvs \<Rightarrow> Inr (map fst kvs)
     | _ \<Rightarrow> Inl TypeError)"

definition get_field_choices :: "descriptor \<Rightarrow> bool \<Rightarrow> pyval list \<Rightarrow> error + pyval" where
  "get_field_choices f include_blank blank_choice =
     (let first_choice = (if include_blank \<and> blank_choice \<noteq> [] then blank_choice else []) in
      bind (getattr (choices f)) (\<lambda>ch.
      bind (py_list ch) (\<lambda>xs.
      Inr (PList (first_choice @ xs)))))"

definition EMPTY_VALUES :: "pyval list" where
  "EMPTY_VALUES = [PNone, PStr [], PList [], PTuple [], PDict []]"

text \<open>
  \<^verbatim>\<open>value.lower()\<close> exists on strings only; on any other non-empty value the
  call raises \<^verbatim>\<open>AttributeError\<close>.
\<close>

definition boolean_field :: "pyval \<Rightarrow> error + pyval" where
  "boolean_field v =
     (if v \<in> set EMPTY_VALUES then Inr PNone
      else case v of
        PStr s \<Rightarrow> Inr (PBool (lower s = ''true''))
      | _ \<Rightarrow> Inl AttributeError)"

definition get_field_label :: "environment \<Rightarrow> descriptor \<Rightarrow> error + pyval" where
  "get_field_label dj f =
     bind (getattr (verbose_name f)) (\<lambda>vn.
       if truthy vn then Inr vn
       else bind (getattr (name f)) (\<lambda>n.
         case n of
           PNone \<Rightarrow> Inr (PStr [])
         | PStr s \<Rightarrow> Inr (PStr (capfirst dj (get_verbose_name dj s)))
         | _ \<Rightarrow> Inl TypeError))"

text \<open>A function that ends without \<^verbatim>\<open>return\<close> gives \<^verbatim>\<open>None\<close>.\<close>

definition get_field_help_text :: "environment \<Rightarrow> descriptor \<Rightarrow> error + pyval" where
  "get_field_help_text dj f =
     bind (getattr (help_text f)) (\<lambda>h.
       if truthy h then
         (case h of PStr s \<Rightarrow> Inr (PStr (capitalize dj s)) | _ \<Rightarrow> Inl AttributeError)
       else Inr PNone)"


section \<open>The handlers that do not call \<^verbatim>\<open>generate\<close>\<close>

definition generate_stringfield :: "environment \<Rightarrow> descriptor \<Rightarrow> (string \<rightharpoonup> argval) \<Rightarrow> result" where
  "generate_stringfield dj f kw =
     bind (get_field_label dj f) (\<lambda>label.
     bind (getattr (default_attr f)) (\<lambda>initial.
     bind (getattr (required f)) (\<lambda>req.
     bind (get_field_help_text dj f) (\<lambda>help.
     let defaults = [''label'' \<mapsto> AVal label, ''initial'' \<mapsto> AVal initial,
                     ''required'' \<mapsto> AVal req, ''help_text'' \<mapsto> AVal help] in
     bind (getattr (max_length f)) (\<lambda>ml.
     bind (if truthy ml then bind (getattr (choices f)) (\<lambda>ch. Inr (\<not> truthy ch))
           else Inr False) (\<lambda>set_max.
     let defaults = (if set_max then defaults(''max_length'' \<mapsto> AVal ml) else defaults) in
     bind (if ml = PNone then bind (getattr (choices f)) (\<lambda>ch. Inr (\<not> truthy ch))
           else Inr False) (\<lambda>set_widget.
     let defaults = (if set_widget then defaults(''widget'' \<mapsto> AWidget Textarea) else defaults) in
     bind (getattr (regex f)) (\<lambda>rx.
     if truthy rx then
       construct dj MongoCharField [] (defaults(''regex'' \<mapsto> AVal rx)) kw
     else
       bind (getattr (choices f)) (\<lambda>ch.
       if truthy ch then
         bind (get_field_choices f True BLANK_CHOICE_DASH) (\<lambda>cs.
         let defaults = defaults(''choices'' \<mapsto> AVal cs,
                                 ''coerce'' \<mapsto> ACoerce Coerce_string_field) in
         let defaults = (if \<not> truthy req then defaults(''empty_value'' \<mapsto> AVal PNone)
                         else defaults) in
         construct dj TypedChoiceField [] defaults kw)
       else construct dj MongoCharField [] defaults kw)))))))))"

definition generate_emailfield :: "environment \<Rightarrow> descriptor \<Rightarrow> (string \<rightharpoonup> argval) \<Rightarrow> result" where
  "generate_emailfield dj f kw =
     bind (getattr (required f)) (\<lambda>req.
     bind (getattr (min_length f)) (\<lambda>minl.
     bind (getattr (max_length f)) (\<lambda>maxl.
     bind (getattr (default_attr f)) (\<lambda>initial.
     bind (get_field_label dj f) (\<lambda>label.
     bind (get_field_help_text dj f) (\<lambda>help.
     construct dj EmailField []
       [''required'' \<mapsto> AVal req, ''min_length'' \<mapsto> AVal minl, ''max_length'' \<mapsto> AVal maxl,
        ''initial'' \<mapsto> AVal initial, ''label'' \<mapsto> AVal label, ''help_text'' \<mapsto> AVal help]
       kw))))))"

definition generate_urlfield :: "environment \<Rightarrow> descriptor \<Rightarrow> (string \<rightharpoonup> argval) \<Rightarrow> result" where
  "generate_urlfield dj f kw =
     bind (getattr (required f)) (\<lambda>req.
     bind (getattr (min_length f)) (\<lambda>minl.
     bind (getattr (max_length f)) (\<lambda>maxl.
     bind (getattr (default_attr f)) (\<lambda>initial.
     bind (get_field_label dj f) (\<lambda>label.
     bind (get_field_help_text dj f) (\<lambda>help.
     construct dj URLField []
       [''required'' \<mapsto> AVal req, ''min_length'' \<mapsto> AVal minl, ''max_length'' \<mapsto> AVal maxl,
        ''initial'' \<mapsto> AVal initial, ''label'' \<mapsto> AVal label, ''help_text'' \<mapsto> AVal help]
       kw))))))"

definition generate_intfield :: "environment \<Rightarrow> descriptor \<Rightarrow> (string \<rightharpoonup> argval) \<Rightarrow> result" where
  "generate_intfield dj f kw =
     bind (getattr (choices f)) (\<lambda>ch.
     if truthy ch then
       bind (getattr (required f)) (\<lambda>req.
       bind (getattr (default_attr f)) (\<lambda>initial.
       bind (get_field_label dj f) (\<lambda>label.
       bind (get_field_choices f True BLANK_CHOICE_DASH) (\<lambda>cs.
       bind (get_field_help_text dj f) (\<lambda>help.
       construct dj TypedChoiceField []
         [''coerce'' \<mapsto> ACoerce Coerce_integer_field, ''empty_value'' \<mapsto> AVal PNone,
          ''required'' \<mapsto> AVal req, ''initial'' \<mapsto> AVal initial, ''label'' \<mapsto> AVal label,
          ''choices'' \<mapsto> AVal cs, ''help_text'' \<mapsto> AVal help]
         kw)))))
     else
       bind (getattr (required f)) (\<lambda>req.
       bind (getattr (min_value f)) (\<lambda>minv.
       bind (getattr (max_value f)) (\<lambda>maxv.
       bind (getattr (default_attr f)) (\<lambda>initial.
       bind (get_field_label dj f) (\<lambda>label.
       bind (get_field_help_text dj f) (\<lambda>help.
       construct dj IntegerField []
         [''required'' \<mapsto> AVal req, ''min_value'' \<mapsto> AVal minv, ''max_value'' \<mapsto> AVal maxv,
          ''initial'' \<mapsto> AVal initial, ''label'' \<mapsto> AVal label, ''help_text'' \<mapsto> AVal help]
         kw)))))))"

definition generate_floatfield :: "environment \<Rightarrow> descriptor \<Rightarrow> (string \<rightharpoonup> argval) \<Rightarrow> result" where
  "generate_floatfield dj f kw =
     bind (get_field_label dj f) (\<lambda>label.
     bind (getattr (default_attr f)) (\<lambda>initial.
     bind (getattr (required f)) (\<lambda>req.
     bind (getattr (min_value f)) (\<lambda>minv.
     bind (getattr (max_value f)) (\<lambda>maxv.
     bind (get_field_help_text dj f) (\<lambda>help.
     construct dj FloatField []
       [''label'' \<mapsto> AVal label, ''initial'' \<mapsto> AVal initial, ''required'' \<mapsto> AVal req,
        ''min_value'' \<mapsto> AVal minv, ''max_value'' \<mapsto> AVal maxv, ''help_text'' \<mapsto> AVal help]
       kw))))))"

definition generate_decimalfield :: "environment \<Rightarrow> descriptor \<Rightarrow> (string \<rightharpoonup> argval) \<Rightarrow> result" where
  "generate_decimalfield dj f kw =
     bind (get_field_label dj f) (\<lambda>label.
     bind (getattr (default_attr f)) (\<lambda>initial.
     bind (getattr (required f)) (\<lambda>req.
     bind (getattr (min_value f)) (\<lambda>minv.
     bind (getattr (max_value f)) (\<lambda>maxv.
     bind (get_field_help_text dj f) (\<lambda>help.
     construct dj DecimalField []
       [''label'' \<mapsto> AVal label, ''initial'' \<mapsto> AVal initial, ''required'' \<mapsto> AVal req,
        ''min_value'' \<mapsto> AVal minv, ''max_value'' \<mapsto> AVal maxv, ''help_text'' \<mapsto> AVal help]
       kw))))))"

definition generate_booleanfield :: "environment \<Rightarrow> descriptor \<Rightarrow> (string \<rightharpoonup> argval) \<Rightarrow> result" where
  "generate_booleanfield dj f kw =
     bind (getattr (choices f)) (\<lambda>ch.
     if truthy ch then
       bind (getattr (required f)) (\<lambda>req.
       bind (getattr (default_attr f)) (\<lambda>initial.
       bind (get_field_label dj f) (\<lambda>label.
       bind (get_field_choices f True BLANK_CHOICE_DASH) (\<lambda>cs.
       bind (get_field_help_text dj f) (\<lambda>help.
       construct dj TypedChoiceField []
         [''coerce'' \<mapsto> ACoerce Coerce_boolean_field, ''empty_value'' \<mapsto> AVal PNone,
          ''required'' \<mapsto> AVal req, ''initial'' \<mapsto> AVal initial, ''label'' \<mapsto> AVal label,
          ''choices'' \<mapsto> AVal cs, ''help_text'' \<mapsto> AVal help]
         kw)))))
     else
       bind (getattr (required f)) (\<lambda>req.
       bind (getattr (default_attr f)) (\<lambda>initial.
       bind (get_field_label dj f) (\<lambda>label.
       bind (get_field_help_text dj f) (\<lambda>help.
       construct dj BooleanField []
         [''required'' \<mapsto> AVal req, ''initial'' \<mapsto> AVal initial, ''label'' \<mapsto> AVal label,
          ''help_text'' \<mapsto> AVal help]
         kw)))))"

definition generate_datetimefield :: "environment \<Rightarrow> descriptor \<Rightarrow> (string \<rightharpoonup> argval) \<Rightarrow> result" where
  "generate_datetimefield dj f kw =
     bind (getattr (required f)) (\<lambda>req.
     bind (getattr (default_attr f)) (\<lambda>initial.
     bind (get_field_label dj f) (\<lambda>label.
     construct dj DateTimeField []
       [''required'' \<mapsto> AVal req, ''initial'' \<mapsto> AVal initial, ''label'' \<mapsto> AVal label]
       kw)))"

definition generate_referencefield :: "environment \<Rightarrow> descriptor \<Rightarrow> (string \<rightharpoonup> argval) \<Rightarrow> result" where
  "generate_referencefield dj f kw =
     bind (get_field_label dj f) (\<lambda>label.
     bind (get_field_help_text dj f) (\<lambda>help.
     bind (getattr (required f)) (\<lambda>req.
     bind (getattr (document_type f)) (\<lambda>doc.
     construct dj ReferenceField [AObjects doc]
       [''label'' \<mapsto> AVal label, ''help_text'' \<mapsto> AVal help, ''required'' \<mapsto> AVal req]
       kw))))"

definition generate_filefield :: "environment \<Rightarrow> descriptor \<Rightarrow> (string \<rightharpoonup> argval) \<Rightarrow> result" where
  "generate_filefield dj f kw =
     bind (getattr (required f)) (\<lambda>req.
     bind (get_field_label dj f) (\<lambda>label.
     bind (getattr (default_attr f)) (\<lambda>initial.
     bind (get_field_help_text dj f) (\<lambda>help.
     construct dj FileField []
       [''required'' \<mapsto> AVal req, ''label'' \<mapsto> AVal label, ''initial'' \<mapsto> AVal initial,
        ''help_text'' \<mapsto> AVal help]
       kw))))"

definition generate_imagefield :: "environment \<Rightarrow> descriptor \<Rightarrow> (string \<rightharpoonup> argval) \<Rightarrow> result" where
  "generate_imagefield dj f kw =
     bind (getattr (required f)) (\<lambda>req.
     bind (get_field_label dj f) (\<lambda>label.
     bind (getattr (default_attr f)) (\<lambda>initial.
     bind (get_field_help_text dj f) (\<lambda>help.
     construct dj ImageField []
       [''required'' \<mapsto> AVal req, ''label'' \<mapsto> AVal label, ''initial'' \<mapsto> AVal initial,
        ''help_text'' \<mapsto> AVal help]
       kw))))"


section \<open>Dispatch\<close>

text \<open>
  The two generator classes; \<^verbatim>\<open>self\<close> is an instance of one of them, and
  \<^verbatim>\<open>self.generate\<close> is the method of that class.
\<close>

datatype generator = MongoFormFieldGenerator | MongoDefaultFormFieldGenerator

definition field_map :: "string \<rightharpoonup> string" where
  "field_map = [''sortedlistfield'' \<mapsto> ''generate_listfield'']"

text \<open>The \<^verbatim>\<open>generate_*\<close> methods, which both classes have.\<close>

definition handlers :: "string list" where
  "handlers = [''generate_stringfield'', ''generate_emailfield'', ''generate_urlfield'',
     ''generate_intfield'', ''generate_floatfield'', ''generate_decimalfield'',
     ''generate_booleanfield'', ''generate_datetimefield'', ''generate_referencefield'',
     ''generate_listfield'', ''generate_mapfield'', ''generate_filefield'',
     ''generate_imagefield'']"

lemma bind_cong [fundef_cong]:
  "r = r' \<Longrightarrow> (\<And>v. r' = Inr v \<Longrightarrow> k v = k' v) \<Longrightarrow> bind r k = bind r' k'"
  by (cases r') (simp_all add: bind_def)

lemma field_smaller: "field f = Some g \<Longrightarrow> size g < size f"
  by (cases f) simp

text \<open>
  \<open>generate\<close> is \<^verbatim>\<open>self.generate\<close>; \<open>MongoFormFieldGenerator_generate\<close> and
  \<open>MongoDefaultFormFieldGenerator_generate\<close> are the bodies of the two methods;
  \<open>call_method self m\<close> is \<^verbatim>\<open>getattr(self, m)(field, **kwargs)\<close>, which raises
  \<^verbatim>\<open>AttributeError\<close> when there is no method \<open>m\<close>.

  In the loop over \<^verbatim>\<open>__bases__\<close> every path through the body returns or raises,
  so only the first base is ever looked at; with no base at all the method
  ends without \<^verbatim>\<open>return\<close>. The \<^verbatim>\<open>except AttributeError\<close> clause also catches an
  \<^verbatim>\<open>AttributeError\<close> raised inside the handler that was found.
\<close>

function
  generate :: "environment \<Rightarrow> generator \<Rightarrow> descriptor \<Rightarrow> (string \<rightharpoonup> argval) \<Rightarrow> result" and
  MongoDefaultFormFieldGenerator_generate ::
    "environment \<Rightarrow> generator \<Rightarrow> descriptor \<Rightarrow> (string \<rightharpoonup> argval) \<Rightarrow> result" and
  MongoFormFieldGenerator_generate ::
    "environment \<Rightarrow> generator \<Rightarrow> descriptor \<Rightarrow> (string \<rightharpoonup> argval) \<Rightarrow> result" and
  call_method :: "environment \<Rightarrow> generator \<Rightarrow> string \<Rightarrow> descriptor \<Rightarrow> (string \<rightharpoonup> argval) \<Rightarrow> result" and
  generate_listfield :: "environment \<Rightarrow> generator \<Rightarrow> descriptor \<Rightarrow> (string \<rightharpoonup> argval) \<Rightarrow> result" and
  generate_mapfield :: "environment \<Rightarrow> generator \<Rightarrow> descriptor \<Rightarrow> (string \<rightharpoonup> argval) \<Rightarrow> result"
where
  "generate dj self f kw =
     (case self of
        MongoFormFieldGenerator \<Rightarrow> MongoFormFieldGenerator_generate dj self f kw
      | MongoDefaultFormFieldGenerator \<Rightarrow> MongoDefaultFormFieldGenerator_generate dj self f kw)"
| "MongoDefaultFormFieldGenerator_generate dj self f kw =
     (case MongoFormFieldGenerator_generate dj self f kw of
        Inl NotImplementedError \<Rightarrow>
          bind (getattr (required f)) (\<lambda>req.
          let defaults = [''required'' \<mapsto> AVal req] in
          let defaults = (if hasattr (min_length f)
                          then defaults(''min_length'' \<mapsto> AVal (the (min_length f)))
                          else defaults) in
          let defaults = (if hasattr (max_length f)
                          then defaults(''max_length'' \<mapsto> AVal (the (max_length f)))
                          else defaults) in
          let defaults = (if hasattr (default_attr f)
                          then defaults(''initial'' \<mapsto> AVal (the (default_attr f)))
                          else defaults) in
          construct dj CharField [] defaults kw)
      | r \<Rightarrow> r)"
| "MongoFormFieldGenerator_generate dj self f kw =
     (let field_name = lower (cname (cls f)) in
      if ''generate_'' @ field_name \<in> set handlers
      then call_method dj self (''generate_'' @ field_name) f kw
      else
        (case cbases (cls f) of
           [] \<Rightarrow> Inr None
         | c # rest \<Rightarrow>
             (let cls_name = lower (cname c) in
              case call_method dj self (''generate_'' @ cls_name) f kw of
                Inl AttributeError \<Rightarrow>
                  (case field_map cls_name of
                     Some m \<Rightarrow> call_method dj self m f kw
                   | None \<Rightarrow> Inl NotImplementedError)
              | r \<Rightarrow> r)))"
| "call_method dj self m f kw =
     (if m = ''generate_stringfield'' then generate_stringfield dj f kw
      else if m = ''generate_emailfield'' then generate_emailfield dj f kw
      else if m = ''generate_urlfield'' then generate_urlfield dj f kw
      else if m = ''generate_intfield'' then generate_intfield dj f kw
      else if m = ''generate_floatfield'' then generate_floatfield dj f kw
      else if m = ''generate_decimalfield'' then generate_decimalfield dj f kw
      else if m = ''generate_booleanfield'' then generate_booleanfield dj f kw
      else if m = ''generate_datetimefield'' then generate_datetimefield dj f kw
      else if m = ''generate_referencefield'' then generate_referencefield dj f kw
      else if m = ''generate_listfield'' then generate_listfield dj self f kw
      else if m = ''generate_mapfield'' then generate_mapfield dj self f kw
      else if m = ''generate_filefield'' then generate_filefield dj f kw
      else if m = ''generate_imagefield'' then generate_imagefield dj f kw
      else Inl AttributeError)"
| "generate_listfield dj self f kw =
     (case field f of
        None \<Rightarrow> Inl AttributeError
      | Some inner \<Rightarrow>
          bind (getattr (choices inner)) (\<lambda>ch.
          if truthy ch then
            bind (getattr (required f)) (\<lambda>req.
            bind (get_field_label dj f) (\<lambda>label.
            bind (get_field_help_text dj f) (\<lambda>help.
            construct dj MultipleChoiceField []
              [''choices'' \<mapsto> AVal ch, ''required'' \<mapsto> AVal req, ''label'' \<mapsto> AVal label,
               ''help_text'' \<mapsto> AVal help, ''widget'' \<mapsto> AWidget CheckboxSelectMultiple]
              kw)))
          else if issubclass (cls inner) MongoReferenceField then
            bind (get_field_label dj f) (\<lambda>label.
            bind (get_field_help_text dj f) (\<lambda>help.
            bind (getattr (required f)) (\<lambda>req.
            bind (getattr (document_type inner)) (\<lambda>doc.
            construct dj DocumentMultipleChoiceField [AObjects doc]
              [''label'' \<mapsto> AVal label, ''help_text'' \<mapsto> AVal help, ''required'' \<mapsto> AVal req]
              kw))))
          else if \<not> issubclass (cls inner) MongoEmbeddedDocumentField then
            bind (get_field_label dj f) (\<lambda>label.
            bind (get_field_help_text dj f) (\<lambda>help.
            bind (getattr (required f)) (\<lambda>req.
            bind (generate dj self inner Map.empty) (\<lambda>form_field.
            construct dj ListField [AClass (class_of form_field)]
              [''label'' \<mapsto> AVal label, ''help_text'' \<mapsto> AVal help, ''required'' \<mapsto> AVal req]
              kw))))
          else Inr None))"
| "generate_mapfield dj self f kw =
     bind (get_field_label dj f) (\<lambda>label.
     bind (get_field_help_text dj f) (\<lambda>help.
     bind (getattr (required f)) (\<lambda>req.
     case field f of
       None \<Rightarrow> Inl AttributeError
     | Some inner \<Rightarrow>
         bind (generate dj self inner Map.empty) (\<lambda>form_field.
         construct dj MapField [AClass (class_of form_field)]
           [''label'' \<mapsto> AVal label, ''help_text'' \<mapsto> AVal help, ''required'' \<mapsto> AVal req]
           kw))))"
  by pat_completeness auto

termination
  by (relation "measure (\<lambda>x. case x of
        Inl (Inl (dj, self, f, kw)) \<Rightarrow> 5 * size f + 4
      | Inl (Inr (Inl (dj, self, f, kw))) \<Rightarrow> 5 * size f + 3
      | Inl (Inr (Inr (dj, self, f, kw))) \<Rightarrow> 5 * size f + 2
      | Inr (Inl (dj, self, m, f, kw)) \<Rightarrow> 5 * size f + 1
      | Inr (Inr (Inl (dj, self, f, kw))) \<Rightarrow> 5 * size f
      | Inr (Inr (Inr (dj, self, f, kw))) \<Rightarrow> 5 * size f)")
     (auto dest: field_smaller)


declare generate.simps [simp del]
declare MongoDefaultFormFieldGenerator_generate.simps [simp del]
declare MongoFormFieldGenerator_generate.simps [simp del]
declare call_method.simps [simp del]
declare generate_listfield.simps [simp del]
declare generate_mapfield.simps [simp del]

text \<open>The class of the form field a call returned, if it returned one.\<close>

definition result_class :: "result \<Rightarrow> form_class option" where
  "result_class r = (case r of Inr (Some ff) \<Rightarrow> Some (form_class ff) | _ \<Rightarrow> None)"

text \<open>The keyword argument \<open>k\<close> of the form field a call returned.\<close>

definition result_kwarg :: "result \<Rightarrow> string \<Rightarrow> argval option" where
  "result_kwarg r k = (case r of Inr (Some ff) \<Rightarrow> kwargs ff k | _ \<Rightarrow> None)"

text \<open>The positional arguments of the form field a call returned.\<close>

definition result_args :: "result \<Rightarrow> argval list option" where
  "result_args r = (case r of Inr (Some ff) \<Rightarrow> Some (args ff) | _ \<Rightarrow> None)"

section \<open>Predicates on descriptors used in the statements\<close>

text \<open>
  The attributes every mongoengine field has (\<^verbatim>\<open>name\<close>, \<^verbatim>\<open>verbose_name\<close>,
  \<^verbatim>\<open>help_text\<close>, \<^verbatim>\<open>required\<close>, \<^verbatim>\<open>default\<close>, \<^verbatim>\<open>choices\<close>) are there, the name and
  the help text being \<^verbatim>\<open>None\<close> or a string.
\<close>

definition base_attributes :: "descriptor \<Rightarrow> bool" where
  "base_attributes f =
     (verbose_name f \<noteq> None \<and>
      (case name f of Some PNone \<Rightarrow> True | Some (PStr s) \<Rightarrow> True | _ \<Rightarrow> False) \<and>
      (case help_text f of Some PNone \<Rightarrow> True | Some (PStr s) \<Rightarrow> True | _ \<Rightarrow> False) \<and>
      required f \<noteq> None \<and> default_attr f \<noteq> None \<and> choices f \<noteq> None)"

text \<open>The descriptor's \<^verbatim>\<open>choices\<close> is a non-empty list or tuple.\<close>

definition has_choices :: "descriptor \<Rightarrow> bool" where
  "has_choices f =
     (case choices f of
        Some (PList xs) \<Rightarrow> xs \<noteq> []
      | Some (PTuple xs) \<Rightarrow> xs \<noteq> []
      | _ \<Rightarrow> False)"

text \<open>
  A kind is recognised when a handler resolves for its own lower-cased class
  name or for that of one of its bases, by a \<^verbatim>\<open>generate_*\<close> method or by the
  alias table.
\<close>

definition recognized :: "descriptor \<Rightarrow> bool" where
  "recognized f =
     (\<exists>n \<in> set (lower (cname (cls f)) # map (\<lambda>c. lower (cname c)) (cbases (cls f))).
        ''generate_'' @ n \<in> set handlers \<or> field_map n \<noteq> None)"

text \<open>
  The defaults of the fallback of the lenient generator: \<^verbatim>\<open>required\<close> always,
  the other three keys exactly when the descriptor has the attribute.
\<close>

definition fallback_defaults :: "descriptor \<Rightarrow> pyval \<Rightarrow> (string \<rightharpoonup> argval)" where
  "fallback_defaults f req =
     (\<lambda>k. if k = ''required'' then Some (AVal req)
          else if k = ''min_length'' then map_option AVal (min_length f)
          else if k = ''max_length'' then map_option AVal (max_length f)
          else if k = ''initial'' then map_option AVal (default_attr f)
          else None)"

text \<open>
  The words of the specification for the help text: the first letter
  capitalised, the rest of the text as it was.
\<close>

definition first_letter_capitalized :: "string \<Rightarrow> string" where
  "first_letter_capitalized s = (case s of [] \<Rightarrow> [] | c # cs \<Rightarrow> upper_char c # cs)"

text \<open>
  A result respects the caller's keyword arguments \<open>kw\<close> when, if it is a form
  field, each key of \<open>kw\<close> has the caller's value among its constructor arguments.
\<close>

definition overrides :: "(string \<rightharpoonup> argval) \<Rightarrow> result \<Rightarrow> bool" where
  "overrides kw r =
     (\<forall>ff. r = Inr (Some ff) \<longrightarrow> (\<forall>k v. kw k = Some v \<longrightarrow> kwargs ff k = Some v))"

section \<open>Example classes and descriptors\<close>

text \<open>
  An environment for the examples. \<open>capfirst\<close> upper-cases the first letter,
  \<open>get_verbose_name\<close> lower-cases. Of the constructors of \<^verbatim>\<open>.fields\<close>,
  \<^verbatim>\<open>MongoCharField\<close> has no parameter \<^verbatim>\<open>regex\<close> and raises \<^verbatim>\<open>TypeError\<close> when given
  one, and \<^verbatim>\<open>ListField\<close> raises \<^verbatim>\<open>AttributeError\<close> when the contained class is
  \<^verbatim>\<open>NoneType\<close>; every other call is accepted. The examples are ASCII texts.
\<close>

definition sample_fields_init ::
  "form_class \<Rightarrow> argval list \<Rightarrow> (string \<rightharpoonup> argval) \<Rightarrow> error option" where
  "sample_fields_init c as kws =
     (if c = MongoCharField \<and> kws ''regex'' \<noteq> None then Some TypeError
      else if c = ListField \<and> as = [AClass NoneType] then Some AttributeError
      else None)"

definition sample_django :: environment where
  "sample_django = \<lparr>capfirst = (\<lambda>s. case s of [] \<Rightarrow> [] | c # cs \<Rightarrow> upper_char c # cs),
                     get_verbose_name = lower,
                     fields_init = sample_fields_init,
                     unicode_capitalize = (\<lambda>s. s)\<rparr>"

definition StringField :: pyclass where
  "StringField = PyClass ''StringField'' [BaseField]"

definition IntField :: pyclass where
  "IntField = PyClass ''IntField'' [BaseField]"

definition MongoBooleanField :: pyclass where
  "MongoBooleanField = PyClass ''BooleanField'' [BaseField]"

definition ComplexBaseField :: pyclass where
  "ComplexBaseField = PyClass ''ComplexBaseField'' [BaseField]"

definition MongoListField :: pyclass where
  "MongoListField = PyClass ''ListField'' [ComplexBaseField]"

text \<open>A string descriptor \<^verbatim>\<open>StringField(help_text='enter URL')\<close> bound to the name \<^verbatim>\<open>homepage\<close>.\<close>

definition homepage :: descriptor where
  "homepage = Descriptor StringField (Some (PStr ''homepage'')) (Some PNone)
     (Some (PStr ''enter URL'')) (Some (PBool False)) (Some PNone) (Some PNone)
     (Some PNone) (Some PNone) (Some PNone) None None None None"

text \<open>
  \<^verbatim>\<open>StringField(verbose_name='Home page')\<close> bound to the name \<^verbatim>\<open>hp\<close>, with no
  help text.
\<close>

definition titled :: descriptor where
  "titled = Descriptor StringField (Some (PStr ''hp'')) (Some (PStr ''Home page''))
     (Some PNone) (Some (PBool False)) (Some PNone) (Some PNone)
     (Some PNone) (Some PNone) (Some PNone) None None None None"

text \<open>
  A string descriptor whose help text has characters outside ASCII: the bytes
  \<^verbatim>\<open>c3 a9\<close> (the letter e with an acute accent, in UTF-8) followed by \<^verbatim>\<open>T\<close>.
\<close>

definition accented_text :: string where
  "accented_text = [Char True True False False False False True True,
                    Char True False False True False True False True, CHR ''T'']"

definition accented :: descriptor where
  "accented = Descriptor StringField (Some (PStr ''note'')) (Some PNone)
     (Some (PStr accented_text)) (Some (PBool False)) (Some PNone) (Some PNone)
     (Some PNone) (Some PNone) (Some PNone) None None None None"

text \<open>A string descriptor not bound to a name, with an empty help text.\<close>

definition unbound :: descriptor where
  "unbound = Descriptor StringField (Some PNone) (Some PNone)
     (Some (PStr [])) (Some (PBool False)) (Some PNone) (Some PNone)
     (Some PNone) (Some PNone) (Some PNone) None None None None"

text \<open>
  A kind without a handler: mongoengine's \<^verbatim>\<open>GeoPointField\<close>, which has the
  attributes of every field and neither \<^verbatim>\<open>min_length\<close> nor \<^verbatim>\<open>max_length\<close>.
\<close>

definition GeoPointField :: pyclass where
  "GeoPointField = PyClass ''GeoPointField'' [BaseField]"

definition location :: descriptor where
  "location = Descriptor GeoPointField (Some (PStr ''location'')) (Some PNone)
     (Some PNone) (Some (PBool True)) (Some PNone) (Some PNone)
     None None None None None None None"

text \<open>
  \<^verbatim>\<open>class TaggedStringField(Mixin, StringField)\<close>: a string kind whose first base
  is a mixin without a handler.
\<close>

definition Mixin :: pyclass where
  "Mixin = PyClass ''Mixin'' [object]"

definition TaggedStringField :: pyclass where
  "TaggedStringField = PyClass ''TaggedStringField'' [Mixin, StringField]"

definition tagged :: descriptor where
  "tagged = Descriptor TaggedStringField (Some (PStr ''tag'')) (Some PNone)
     (Some PNone) (Some (PBool False)) (Some PNone) (Some PNone)
     (Some PNone) (Some PNone) (Some PNone) None None None None"

text \<open>
  \<^verbatim>\<open>StringField(choices=[("a","A"),("b","B")], required=False)\<close> bound to the name
  \<^verbatim>\<open>colour\<close>.
\<close>

definition colour :: descriptor where
  "colour = Descriptor StringField (Some (PStr ''colour'')) (Some PNone)
     (Some PNone) (Some (PBool False)) (Some PNone)
     (Some (PList [PTuple [PStr ''a'', PStr ''A''], PTuple [PStr ''b'', PStr ''B'']]))
     (Some PNone) (Some PNone) (Some PNone) None None None None"

text \<open>The same descriptor with a regular expression as well.\<close>

definition pattern_colour :: descriptor where
  "pattern_colour = Descriptor StringField (Some (PStr ''colour'')) (Some PNone)
     (Some PNone) (Some (PBool False)) (Some PNone)
     (Some (PList [PTuple [PStr ''a'', PStr ''A''], PTuple [PStr ''b'', PStr ''B'']]))
     (Some PNone) (Some PNone) (Some (PRegex ''[ab]'')) None None None None"

text \<open>\<^verbatim>\<open>StringField(choices=(("s","Small"),), required=True)\<close>\<close>

definition size_code :: descriptor where
  "size_code = Descriptor StringField (Some (PStr ''size'')) (Some PNone)
     (Some PNone) (Some (PBool True)) (Some PNone)
     (Some (PTuple [PTuple [PStr ''s'', PStr ''Small'']]))
     (Some PNone) (Some PNone) (Some PNone) None None None None"

text \<open>\<^verbatim>\<open>IntField(choices=[(1,"one"),(2,"two")], required=True)\<close>\<close>

definition rating :: descriptor where
  "rating = Descriptor IntField (Some (PStr ''rating'')) (Some PNone)
     (Some PNone) (Some (PBool True)) (Some PNone)
     (Some (PList [PTuple [PInt 1, PStr ''one''], PTuple [PInt 2, PStr ''two'']]))
     None None None (Some PNone) (Some PNone) None None"

text \<open>\<^verbatim>\<open>BooleanField(choices=[("true","Yes"),("false","No")])\<close>\<close>

definition flag :: descriptor where
  "flag = Descriptor MongoBooleanField (Some (PStr ''flag'')) (Some PNone)
     (Some PNone) (Some (PBool False)) (Some PNone)
     (Some (PList [PTuple [PStr ''true'', PStr ''Yes''], PTuple [PStr ''false'', PStr ''No'']]))
     None None None None None None None"

text \<open>
  List descriptors: \<^verbatim>\<open>ListField(StringField(choices=[("a","A"),("b","B")]))\<close>,
  \<^verbatim>\<open>ListField(ReferenceField(Author))\<close>, \<^verbatim>\<open>ListField(StringField())\<close>,
  \<^verbatim>\<open>ListField(GeoPointField())\<close> and \<^verbatim>\<open>ListField(EmbeddedDocumentField(Address))\<close>.
\<close>

definition list_of :: "string \<Rightarrow> descriptor \<Rightarrow> descriptor" where
  "list_of n inner = Descriptor MongoListField (Some (PStr n)) (Some PNone)
     (Some PNone) (Some (PBool False)) (Some PNone) (Some PNone)
     None None None None None (Some inner) None"

definition author_ref :: descriptor where
  "author_ref = Descriptor MongoReferenceField (Some PNone) (Some PNone)
     (Some PNone) (Some (PBool False)) (Some PNone) (Some PNone)
     None None None None None None (Some ''Author'')"

definition address :: descriptor where
  "address = Descriptor MongoEmbeddedDocumentField (Some PNone) (Some PNone)
     (Some PNone) (Some (PBool False)) (Some PNone) (Some PNone)
     None None None None None None (Some ''Address'')"

definition colours :: descriptor where
  "colours = list_of ''colours'' colour"

definition authors :: descriptor where
  "authors = list_of ''authors'' author_ref"

definition homepages :: descriptor where
  "homepages = list_of ''homepages'' homepage"

definition locations :: descriptor where
  "locations = list_of ''locations'' location"

definition addresses :: descriptor where
  "addresses = list_of ''addresses'' address"

text \<open>
  \<^verbatim>\<open>ListField(ListField(EmbeddedDocumentField(Address)))\<close>, and the untyped
  \<^verbatim>\<open>ListField()\<close>, whose \<^verbatim>\<open>field\<close> is \<^verbatim>\<open>None\<close>: an object of class \<^verbatim>\<open>NoneType\<close>
  without any of the attributes.
\<close>

definition address_lists :: descriptor where
  "address_lists = list_of ''address_lists'' addresses"

definition none_object :: descriptor where
  "none_object = Descriptor (PyClass ''NoneType'' [object]) None None None None None None
     None None None None None None None"

definition untyped :: descriptor where
  "untyped = list_of ''untyped'' none_object"

section \<open>Properties of the helpers\<close>

text \<open>
  C10. \<open>boolean_field\<close> maps each member of \<^verbatim>\<open>EMPTY_VALUES\<close> (\<^verbatim>\<open>None\<close>, the empty
  string, the empty list, tuple and dict) to \<^verbatim>\<open>None\<close>, and every other string to
  \<^verbatim>\<open>True\<close> exactly when its lower-cased form is \<^verbatim>\<open>true\<close>, to \<^verbatim>\<open>False\<close> otherwise.
\<close>

theorem boolean_field_coercion:
  "boolean_field PNone = Inr PNone \<and>
   boolean_field (PStr []) = Inr PNone \<and>
   boolean_field (PList []) = Inr PNone \<and>
   boolean_field (PTuple []) = Inr PNone \<and>
   boolean_field (PDict []) = Inr PNone \<and>
   (s \<noteq> [] \<longrightarrow> boolean_field (PStr s) = Inr (PBool (lower s = ''true'')))"
  by (simp add: boolean_field_def EMPTY_VALUES_def)

theorem boolean_field_coercion_witness:
  "''TRUE'' \<noteq> [] \<and> boolean_field (PStr ''TRUE'') = Inr (PBool True) \<and>
   ''no'' \<noteq> [] \<and> boolean_field (PStr ''no'') = Inr (PBool False)"
  using boolean_field_coercion [of "''TRUE''"] boolean_field_coercion [of "''no''"]
  by (simp add: lower_def lower_char_def upper_letters_def lower_letters_def)

text \<open>
  C7, as stated, fails: \<^verbatim>\<open>str.capitalize\<close> also lower-cases every letter after
  the first, so the help text \<^verbatim>\<open>enter URL\<close> becomes \<^verbatim>\<open>Enter url\<close>, not
  \<^verbatim>\<open>Enter URL\<close>.
\<close>

theorem help_text_capitalize_counterexample:
  "get_field_help_text sample_django homepage = Inr (PStr ''Enter url'') \<and>
   first_letter_capitalized ''enter URL'' = ''Enter URL''"
  by (simp add: get_field_help_text_def homepage_def bind_def getattr_def capitalize_def
      ascii_def first_letter_capitalized_def upper_char_def lower_char_def upper_letters_def
      lower_letters_def)

text \<open>
  C7, amended. The label is the verbose name when that is truthy; else, when
  the name is a string, \<^verbatim>\<open>capfirst(get_verbose_name(name))\<close>; else, when the name
  is \<^verbatim>\<open>None\<close>, the empty string. The help text, when it is a non-empty string, is
  \<^verbatim>\<open>str.capitalize\<close> of it: for an ASCII text, the text with its first letter
  upper-cased and all its other letters lower-cased; for a text with other
  characters, what the Unicode-aware function of the language gives. When the
  help text is empty or \<^verbatim>\<open>None\<close> the computed help text is \<^verbatim>\<open>None\<close>.
\<close>

theorem label_and_help_text:
  "(verbose_name f = Some vn \<and> truthy vn \<longrightarrow> get_field_label dj f = Inr vn) \<and>
   (verbose_name f = Some vn \<and> \<not> truthy vn \<and> name f = Some (PStr s) \<longrightarrow>
      get_field_label dj f = Inr (PStr (capfirst dj (get_verbose_name dj s)))) \<and>
   (verbose_name f = Some vn \<and> \<not> truthy vn \<and> name f = Some PNone \<longrightarrow>
      get_field_label dj f = Inr (PStr [])) \<and>
   (help_text f = Some (PStr (c # cs)) \<and> ascii (c # cs) \<longrightarrow>
      get_field_help_text dj f = Inr (PStr (upper_char c # map lower_char cs))) \<and>
   (help_text f = Some (PStr t) \<and> t \<noteq> [] \<and> \<not> ascii t \<longrightarrow>
      get_field_help_text dj f = Inr (PStr (unicode_capitalize dj t))) \<and>
   (help_text f = Some h \<and> \<not> truthy h \<longrightarrow> get_field_help_text dj f = Inr PNone)"
  by (simp add: get_field_label_def get_field_help_text_def bind_def getattr_def capitalize_def)

theorem label_and_help_text_witness:
  "verbose_name titled = Some (PStr ''Home page'') \<and> truthy (PStr ''Home page'') \<and>
   get_field_label sample_django titled = Inr (PStr ''Home page'') \<and>
   help_text titled = Some PNone \<and> \<not> truthy PNone \<and>
   get_field_help_text sample_django titled = Inr PNone \<and>
   verbose_name homepage = Some PNone \<and> name homepage = Some (PStr ''homepage'') \<and>
   get_field_label sample_django homepage = Inr (PStr ''Homepage'') \<and>
   help_text homepage = Some (PStr ''enter URL'') \<and> ascii ''enter URL'' \<and>
   get_field_help_text sample_django homepage = Inr (PStr ''Enter url'') \<and>
   verbose_name unbound = Some PNone \<and> name unbound = Some PNone \<and>
   get_field_label sample_django unbound = Inr (PStr []) \<and>
   help_text accented = Some (PStr accented_text) \<and> accented_text \<noteq> [] \<and>
   \<not> ascii accented_text \<and>
   get_field_help_text sample_django accented =
     Inr (PStr (unicode_capitalize sample_django accented_text))"
proof -
  have verbose: "capfirst sample_django (get_verbose_name sample_django ''homepage'') = ''Homepage''"
    by (simp add: sample_django_def lower_def upper_char_def lower_char_def
        upper_letters_def lower_letters_def)
  have plain: "ascii ''enter URL''"
    by (simp add: ascii_def)
  have other: "accented_text \<noteq> [] \<and> \<not> ascii accented_text"
    by (simp add: accented_text_def ascii_def)
  show ?thesis
    using plain other
      label_and_help_text [of titled "PStr ''Home page''" sample_django "[]" "CHR ''e''" "[]"
        "''x''" PNone]
      label_and_help_text [of homepage PNone sample_django "''homepage''" "CHR ''e''" "''nter URL''"
        "''x''" PNone]
      label_and_help_text [of unbound PNone sample_django "[]" "CHR ''e''" "[]" "''x''" "PStr []"]
      label_and_help_text [of accented PNone sample_django "[]" "CHR ''e''" "[]" accented_text PNone]
    by (simp add: titled_def homepage_def unbound_def accented_def verbose upper_char_def
        lower_char_def upper_letters_def lower_letters_def)
qed

section \<open>Caller-supplied keyword arguments\<close>

text \<open>
  Every handler ends in \<^verbatim>\<open>defaults.update(kwargs)\<close> followed by the constructor
  call, so the caller's keyword arguments are what the constructor receives.
\<close>

lemma overrides_bind: "(\<And>v. overrides kw (k v)) \<Longrightarrow> overrides kw (bind r k)"
  by (cases r) (simp_all add: bind_def overrides_def)

lemma overrides_construct: "overrides kw (construct dj c as d kw)"
  by (simp add: construct_def overrides_def Let_def split: option.split)

lemma overrides_if: "overrides kw a \<Longrightarrow> overrides kw b \<Longrightarrow> overrides kw (if c then a else b)"
  by simp

lemma overrides_option:
  "overrides kw a \<Longrightarrow> (\<And>x. overrides kw (b x)) \<Longrightarrow> overrides kw (case opt of None \<Rightarrow> a | Some x \<Rightarrow> b x)"
  by (cases opt) simp_all

lemma overrides_Inl: "overrides kw (Inl e)"
  by (simp add: overrides_def)

lemma overrides_None: "overrides kw (Inr None)"
  by (simp add: overrides_def)

lemmas overrides_intros =
  overrides_bind overrides_construct overrides_if overrides_option overrides_Inl overrides_None

lemma overrides_stringfield: "overrides kw (generate_stringfield dj f kw)"
  unfolding generate_stringfield_def Let_def by (intro overrides_intros)

lemma overrides_emailfield: "overrides kw (generate_emailfield dj f kw)"
  unfolding generate_emailfield_def by (intro overrides_intros)

lemma overrides_urlfield: "overrides kw (generate_urlfield dj f kw)"
  unfolding generate_urlfield_def by (intro overrides_intros)

lemma overrides_intfield: "overrides kw (generate_intfield dj f kw)"
  unfolding generate_intfield_def by (intro overrides_intros)

lemma overrides_floatfield: "overrides kw (generate_floatfield dj f kw)"
  unfolding generate_floatfield_def by (intro overrides_intros)

lemma overrides_decimalfield: "overrides kw (generate_decimalfield dj f kw)"
  unfolding generate_decimalfield_def by (intro overrides_intros)

lemma overrides_booleanfield: "overrides kw (generate_booleanfield dj f kw)"
  unfolding generate_booleanfield_def by (intro overrides_intros)

lemma overrides_datetimefield: "overrides kw (generate_datetimefield dj f kw)"
  unfolding generate_datetimefield_def by (intro overrides_intros)

lemma overrides_referencefield: "overrides kw (generate_referencefield dj f kw)"
  unfolding generate_referencefield_def by (intro overrides_intros)

lemma overrides_filefield: "overrides kw (generate_filefield dj f kw)"
  unfolding generate_filefield_def by (intro overrides_intros)

lemma overrides_imagefield: "overrides kw (generate_imagefield dj f kw)"
  unfolding generate_imagefield_def by (intro overrides_intros)

lemma overrides_listfield: "overrides kw (generate_listfield dj self f kw)"
  unfolding generate_listfield.simps by (intro overrides_intros)

lemma overrides_mapfield: "overrides kw (generate_mapfield dj self f kw)"
  unfolding generate_mapfield.simps by (intro overrides_intros)

lemma overrides_call_method: "overrides kw (call_method dj self m f kw)"
  unfolding call_method.simps
  by (intro overrides_if overrides_Inl overrides_stringfield overrides_emailfield
      overrides_urlfield overrides_intfield overrides_floatfield overrides_decimalfield
      overrides_booleanfield overrides_datetimefield overrides_referencefield
      overrides_listfield overrides_mapfield overrides_filefield overrides_imagefield)

lemma overrides_catch:
  "overrides kw r \<Longrightarrow> (\<And>e. overrides kw (h e)) \<Longrightarrow>
   overrides kw (case r of Inl e \<Rightarrow> h e | Inr x \<Rightarrow> Inr x)"
  by (cases r) simp_all

lemma overrides_strict: "overrides kw (MongoFormFieldGenerator_generate dj self f kw)"
proof (cases "''generate_'' @ lower (cname (cls f)) \<in> set handlers")
  case True
  then show ?thesis
    by (simp add: MongoFormFieldGenerator_generate.simps overrides_call_method)
next
  case False
  show ?thesis
  proof (cases "cbases (cls f)")
    case Nil
    with False show ?thesis
      by (simp add: MongoFormFieldGenerator_generate.simps overrides_None)
  next
    case (Cons c rest)
    have handler: "overrides kw
       (case e of
          AttributeError \<Rightarrow>
            (case field_map (lower (cname c)) of
               Some m \<Rightarrow> call_method dj self m f kw
             | None \<Rightarrow> Inl NotImplementedError)
        | e' \<Rightarrow> Inl e')" for e
      by (cases e) (simp_all add: overrides_Inl overrides_call_method split: option.split)
    from False Cons show ?thesis
      unfolding MongoFormFieldGenerator_generate.simps Let_def
      by (simp add: overrides_catch [OF overrides_call_method handler])
  qed
qed

lemma overrides_lenient: "overrides kw (MongoDefaultFormFieldGenerator_generate dj self f kw)"
proof -
  have fallback: "overrides kw (bind (getattr (required f)) (\<lambda>req.
          let defaults = [''required'' \<mapsto> AVal req] in
          let defaults = (if hasattr (min_length f)
                          then defaults(''min_length'' \<mapsto> AVal (the (min_length f)))
                          else defaults) in
          let defaults = (if hasattr (max_length f)
                          then defaults(''max_length'' \<mapsto> AVal (the (max_length f)))
                          else defaults) in
          let defaults = (if hasattr (default_attr f)
                          then defaults(''initial'' \<mapsto> AVal (the (default_attr f)))
                          else defaults) in
          construct dj CharField [] defaults kw))" (is "overrides kw ?fb")
    unfolding Let_def by (intro overrides_intros)
  have handler: "overrides kw (case e of NotImplementedError \<Rightarrow> ?fb | e' \<Rightarrow> Inl e')" for e
    using fallback by (cases e) (simp_all add: overrides_Inl)
  show ?thesis
    unfolding MongoDefaultFormFieldGenerator_generate.simps
    by (rule overrides_catch [OF overrides_strict handler])
qed

lemma overrides_generate: "overrides kw (generate dj self f kw)"
  by (cases self) (simp_all add: generate.simps overrides_strict overrides_lenient)





section \<open>Resolution of the handler\<close>

lemma call_method_missing:
  "m \<notin> set handlers \<Longrightarrow> call_method dj self m f kw = Inl AttributeError"
  by (simp add: call_method.simps handlers_def)

text \<open>
  When neither the kind's own name nor the name of its first base has a
  handler, and the alias table does not know the first base, the strict method
  raises, whatever the other bases are.
\<close>

lemma strict_first_base_fails:
  assumes "''generate_'' @ lower (cname (cls f)) \<notin> set handlers"
    and "cbases (cls f) = c # rest"
    and "''generate_'' @ lower (cname c) \<notin> set handlers"
    and "field_map (lower (cname c)) = None"
  shows "MongoFormFieldGenerator_generate dj self f kw = Inl NotImplementedError"
  using assms call_method_missing [OF assms(3), of dj self f kw]
  by (simp add: MongoFormFieldGenerator_generate.simps)

lemma strict_unrecognized:
  assumes "\<not> recognized f" and "cbases (cls f) \<noteq> []"
  shows "MongoFormFieldGenerator_generate dj self f kw = Inl NotImplementedError"
proof -
  from assms(2) obtain c rest where bases: "cbases (cls f) = c # rest"
    by (cases "cbases (cls f)") auto
  from assms(1) bases have
    "''generate_'' @ lower (cname (cls f)) \<notin> set handlers"
    "''generate_'' @ lower (cname c) \<notin> set handlers"
    "field_map (lower (cname c)) = None"
    by (auto simp: recognized_def)
  with bases show ?thesis
    by (rule_tac strict_first_base_fails) auto
qed

lemma fallback_defaults_eq:
  "(let defaults = [''required'' \<mapsto> AVal req] in
    let defaults = (if hasattr (min_length f)
                    then defaults(''min_length'' \<mapsto> AVal (the (min_length f)))
                    else defaults) in
    let defaults = (if hasattr (max_length f)
                    then defaults(''max_length'' \<mapsto> AVal (the (max_length f)))
                    else defaults) in
    (if hasattr (default_attr f)
     then defaults(''initial'' \<mapsto> AVal (the (default_attr f)))
     else defaults)) = fallback_defaults f req"
  by (auto simp: fallback_defaults_def hasattr_def Let_def fun_eq_iff)

lemma lenient_not_unsupported:
  "MongoDefaultFormFieldGenerator_generate dj self f kw \<noteq> Inl NotImplementedError"
  by (simp add: MongoDefaultFormFieldGenerator_generate.simps bind_def getattr_def construct_def
      fields_classes_def Let_def split: sum.split error.split option.split)

lemma lenient_fallback:
  assumes "MongoFormFieldGenerator_generate dj self f kw = Inl NotImplementedError"
    and "required f = Some req"
  shows "MongoDefaultFormFieldGenerator_generate dj self f kw =
         Inr (Some (FormField CharField [] (fallback_defaults f req ++ kw)))"
  using assms fallback_defaults_eq [of req f]
  by (simp add: MongoDefaultFormFieldGenerator_generate.simps bind_def getattr_def construct_def
      fields_classes_def Let_def)

text \<open>
  C2. The lenient generator never raises \<^verbatim>\<open>NotImplementedError\<close>. When the strict
  resolution it wraps raises it, and the descriptor has \<^verbatim>\<open>required\<close> (which the
  fallback reads without a test), the result is a \<^verbatim>\<open>CharField\<close> whose computed
  arguments are \<^verbatim>\<open>required\<close> and, each exactly when the descriptor has the
  attribute, \<^verbatim>\<open>min_length\<close>, \<^verbatim>\<open>max_length\<close> and \<^verbatim>\<open>initial\<close> (from \<^verbatim>\<open>default\<close>). For an
  unrecognised kind, whose class has a base as every class but \<^verbatim>\<open>object\<close> has, the
  strict generator raises \<^verbatim>\<open>NotImplementedError\<close>, and so does the strict method
  inside the lenient one.
\<close>

theorem lenient_generator_total:
  "generate dj MongoDefaultFormFieldGenerator f kw \<noteq> Inl NotImplementedError \<and>
   (MongoFormFieldGenerator_generate dj MongoDefaultFormFieldGenerator f kw =
      Inl NotImplementedError \<and> required f = Some req \<longrightarrow>
      generate dj MongoDefaultFormFieldGenerator f kw =
        Inr (Some (FormField CharField [] (fallback_defaults f req ++ kw)))) \<and>
   (\<not> recognized f \<and> cbases (cls f) \<noteq> [] \<longrightarrow>
      generate dj MongoFormFieldGenerator f kw = Inl NotImplementedError \<and>
      MongoFormFieldGenerator_generate dj MongoDefaultFormFieldGenerator f kw =
        Inl NotImplementedError)"
  using lenient_not_unsupported [of dj MongoDefaultFormFieldGenerator f kw]
    lenient_fallback [of dj MongoDefaultFormFieldGenerator f kw req]
    strict_unrecognized [of f dj MongoFormFieldGenerator kw]
    strict_unrecognized [of f dj MongoDefaultFormFieldGenerator kw]
  by (simp add: generate.simps)

theorem lenient_generator_total_witness:
  "\<not> recognized location \<and> cbases (cls location) \<noteq> [] \<and>
   required location = Some (PBool True) \<and>
   generate sample_django MongoFormFieldGenerator location Map.empty =
     Inl NotImplementedError \<and>
   result_class (generate sample_django MongoDefaultFormFieldGenerator location Map.empty) =
     Some CharField \<and>
   map (result_kwarg (generate sample_django MongoDefaultFormFieldGenerator location Map.empty))
     [''required'', ''initial'', ''min_length'', ''max_length''] =
     [Some (AVal (PBool True)), Some (AVal PNone), None, None]"
proof -
  have unknown: "\<not> recognized location"
    by (simp add: recognized_def location_def GeoPointField_def BaseField_def handlers_def
        field_map_def lower_def lower_char_def upper_letters_def lower_letters_def)
  have bases: "cbases (cls location) \<noteq> []"
    by (simp add: location_def GeoPointField_def)
  have req: "required location = Some (PBool True)"
    by (simp add: location_def)
  from lenient_generator_total [of sample_django location Map.empty "PBool True"]
    unknown bases req
  have strict: "generate sample_django MongoFormFieldGenerator location Map.empty =
      Inl NotImplementedError"
    and lenient: "generate sample_django MongoDefaultFormFieldGenerator location Map.empty =
      Inr (Some (FormField CharField [] (fallback_defaults location (PBool True) ++ Map.empty)))"
    by simp_all
  have args: "map (fallback_defaults location (PBool True))
      [''required'', ''initial'', ''min_length'', ''max_length''] =
      [Some (AVal (PBool True)), Some (AVal PNone), None, None]"
    by (simp add: fallback_defaults_def location_def)
  from unknown bases req strict lenient args show ?thesis
    by (simp add: result_class_def result_kwarg_def)
qed

text \<open>
  C1 fails on the code. \<^verbatim>\<open>TaggedStringField(Mixin, StringField)\<close> has a handler
  for its second base, but the \<^verbatim>\<open>raise\<close> sits inside the loop over the bases:
  the first base, \<^verbatim>\<open>Mixin\<close>, has neither a handler nor an alias, and the method
  raises there without looking at \<^verbatim>\<open>StringField\<close>.
\<close>

theorem first_base_decides:
  "generate dj MongoFormFieldGenerator tagged kw = Inl NotImplementedError \<and>
   cbases (cls tagged) = [Mixin, StringField] \<and>
   ''generate_'' @ lower (cname StringField) \<in> set handlers"
  by (simp add: generate.simps MongoFormFieldGenerator_generate.simps call_method.simps
      tagged_def TaggedStringField_def Mixin_def StringField_def handlers_def field_map_def
      lower_def lower_char_def upper_letters_def lower_letters_def)



section \<open>Descriptors with choices\<close>

lemma label_ok: "base_attributes f \<Longrightarrow> \<exists>l. get_field_label dj f = Inr l"
  by (auto simp: base_attributes_def get_field_label_def bind_def getattr_def
      split: option.splits pyval.splits)

lemma help_ok: "base_attributes f \<Longrightarrow> \<exists>h. get_field_help_text dj f = Inr h"
  by (auto simp: base_attributes_def get_field_help_text_def bind_def getattr_def
      split: option.splits pyval.splits)

lemma choices_ok:
  "has_choices f \<Longrightarrow> \<exists>ch xs. choices f = Some ch \<and> truthy ch \<and> py_list ch = Inr xs"
  by (auto simp: has_choices_def py_list_def split: option.splits pyval.splits)

lemma stringfield_choices:
  assumes "base_attributes f" and "choices f = Some ch" and "truthy ch"
    and "py_list ch = Inr xs" and "required f = Some req"
    and "max_length f = Some ml" and "regex f = Some rx" and "\<not> truthy rx"
  shows "result_class (generate_stringfield dj f kw) = Some TypedChoiceField \<and>
         (kw ''choices'' = None \<longrightarrow> result_kwarg (generate_stringfield dj f kw) ''choices'' =
            Some (AVal (PList (BLANK_CHOICE_DASH @ xs)))) \<and>
         (kw ''coerce'' = None \<longrightarrow> result_kwarg (generate_stringfield dj f kw) ''coerce'' =
            Some (ACoerce Coerce_string_field)) \<and>
         (kw ''empty_value'' = None \<longrightarrow> result_kwarg (generate_stringfield dj f kw) ''empty_value'' =
            (if truthy req then None else Some (AVal PNone)))"
proof -
  from assms(1) obtain l where l: "get_field_label dj f = Inr l"
    using label_ok by blast
  from assms(1) obtain h where h: "get_field_help_text dj f = Inr h"
    using help_ok by blast
  from assms(1) obtain i where i: "default_attr f = Some i"
    by (auto simp: base_attributes_def)
  show ?thesis
    using assms(2-) l h i
    by (simp add: generate_stringfield_def get_field_choices_def bind_def getattr_def
        construct_def fields_classes_def BLANK_CHOICE_DASH_def result_class_def result_kwarg_def map_add_def
        Let_def)
qed

text \<open>
  With a regular expression the handler ends in the call of \<^verbatim>\<open>MongoCharField\<close>
  with the keyword \<^verbatim>\<open>regex\<close>: whatever the constructor does with it, no
  \<^verbatim>\<open>TypedChoiceField\<close> and no \<^verbatim>\<open>empty_value\<close> come out of it.
\<close>

lemma stringfield_regex:
  assumes "base_attributes f" and "max_length f = Some ml" and "regex f = Some rx" and "truthy rx"
  shows "result_class (generate_stringfield dj f kw) \<noteq> Some TypedChoiceField \<and>
         (kw ''empty_value'' = None \<longrightarrow>
            result_kwarg (generate_stringfield dj f kw) ''empty_value'' = None)"
proof -
  from assms(1) obtain l where l: "get_field_label dj f = Inr l"
    using label_ok by blast
  from assms(1) obtain h where h: "get_field_help_text dj f = Inr h"
    using help_ok by blast
  from assms(1) obtain i req ch where i: "default_attr f = Some i" "required f = Some req"
      "choices f = Some ch"
    by (auto simp: base_attributes_def)
  show ?thesis
    using assms(2-) l h i
    by (simp add: generate_stringfield_def bind_def getattr_def construct_def
        fields_classes_def result_class_def result_kwarg_def map_add_def Let_def
        split: option.split)
qed

lemma intfield_choices:
  assumes "base_attributes f" and "choices f = Some ch" and "truthy ch"
    and "py_list ch = Inr xs"
  shows "result_class (generate_intfield dj f kw) = Some TypedChoiceField \<and>
         (kw ''choices'' = None \<longrightarrow> result_kwarg (generate_intfield dj f kw) ''choices'' =
            Some (AVal (PList (BLANK_CHOICE_DASH @ xs)))) \<and>
         (kw ''coerce'' = None \<longrightarrow> result_kwarg (generate_intfield dj f kw) ''coerce'' =
            Some (ACoerce Coerce_integer_field)) \<and>
         (kw ''empty_value'' = None \<longrightarrow> result_kwarg (generate_intfield dj f kw) ''empty_value'' =
            Some (AVal PNone))"
proof -
  from assms(1) obtain l where l: "get_field_label dj f = Inr l"
    using label_ok by blast
  from assms(1) obtain h where h: "get_field_help_text dj f = Inr h"
    using help_ok by blast
  from assms(1) obtain i req where i: "default_attr f = Some i" "required f = Some req"
    by (auto simp: base_attributes_def)
  show ?thesis
    using assms(2-) l h i
    by (simp add: generate_intfield_def get_field_choices_def bind_def getattr_def
        construct_def fields_classes_def BLANK_CHOICE_DASH_def result_class_def result_kwarg_def map_add_def
        Let_def)
qed

lemma booleanfield_choices:
  assumes "base_attributes f" and "choices f = Some ch" and "truthy ch"
    and "py_list ch = Inr xs"
  shows "result_class (generate_booleanfield dj f kw) = Some TypedChoiceField \<and>
         (kw ''choices'' = None \<longrightarrow> result_kwarg (generate_booleanfield dj f kw) ''choices'' =
            Some (AVal (PList (BLANK_CHOICE_DASH @ xs)))) \<and>
         (kw ''coerce'' = None \<longrightarrow> result_kwarg (generate_booleanfield dj f kw) ''coerce'' =
            Some (ACoerce Coerce_boolean_field)) \<and>
         (kw ''empty_value'' = None \<longrightarrow> result_kwarg (generate_booleanfield dj f kw) ''empty_value'' =
            Some (AVal PNone))"
proof -
  from assms(1) obtain l where l: "get_field_label dj f = Inr l"
    using label_ok by blast
  from assms(1) obtain h where h: "get_field_help_text dj f = Inr h"
    using help_ok by blast
  from assms(1) obtain i req where i: "default_attr f = Some i" "required f = Some req"
    by (auto simp: base_attributes_def)
  show ?thesis
    using assms(2-) l h i
    by (simp add: generate_booleanfield_def get_field_choices_def bind_def getattr_def
        construct_def fields_classes_def BLANK_CHOICE_DASH_def result_class_def result_kwarg_def map_add_def
        Let_def)
qed

lemma result_class_Some: "result_class r = Some c \<Longrightarrow> \<exists>x. r = Inr x"
  by (cases r) (simp_all add: result_class_def)

text \<open>Dispatch by the exact kind name, for either generator.\<close>

lemma generate_exact:
  assumes "''generate_'' @ lower (cname (cls f)) \<in> set handlers"
    and "result_class (call_method dj self (''generate_'' @ lower (cname (cls f))) f kw) = Some c"
  shows "generate dj self f kw =
         call_method dj self (''generate_'' @ lower (cname (cls f))) f kw"
proof -
  from assms(2) obtain x where
    x: "call_method dj self (''generate_'' @ lower (cname (cls f))) f kw = Inr x"
    using result_class_Some by blast
  with assms(1) have "MongoFormFieldGenerator_generate dj self f kw = Inr x"
    by (simp add: MongoFormFieldGenerator_generate.simps)
  with x show ?thesis
    by (cases self) (simp_all add: generate.simps MongoDefaultFormFieldGenerator_generate.simps)
qed

lemma generate_stringfield_kind:
  assumes "lower (cname (cls f)) = ''stringfield''"
    and "result_class (generate_stringfield dj f kw) = Some c"
  shows "generate dj self f kw = generate_stringfield dj f kw"
  using assms generate_exact [of f dj self kw c]
  by (simp add: handlers_def call_method.simps)

lemma generate_intfield_kind:
  assumes "lower (cname (cls f)) = ''intfield''"
    and "result_class (generate_intfield dj f kw) = Some c"
  shows "generate dj self f kw = generate_intfield dj f kw"
  using assms generate_exact [of f dj self kw c]
  by (simp add: handlers_def call_method.simps)

lemma generate_booleanfield_kind:
  assumes "lower (cname (cls f)) = ''booleanfield''"
    and "result_class (generate_booleanfield dj f kw) = Some c"
  shows "generate dj self f kw = generate_booleanfield dj f kw"
  using assms generate_exact [of f dj self kw c]
  by (simp add: handlers_def call_method.simps)


text \<open>
  A key that the handler of a string descriptor does not pass, that the caller
  does not pass and that the fallback does not compute is not passed by
  \<open>generate\<close> of either generator.
\<close>

lemma generate_stringfield_kwarg_none:
  assumes "lower (cname (cls f)) = ''stringfield''"
    and "result_kwarg (generate_stringfield dj f kw) k = None"
    and "kw k = None"
    and "k \<notin> set [''required'', ''min_length'', ''max_length'', ''initial'']"
  shows "result_kwarg (generate dj self f kw) k = None"
proof -
  from assms(1) have strict: "MongoFormFieldGenerator_generate dj self f kw =
      generate_stringfield dj f kw"
    by (simp add: MongoFormFieldGenerator_generate.simps handlers_def call_method.simps)
  show ?thesis
  proof (cases self)
    case MongoFormFieldGenerator
    with strict assms(2) show ?thesis
      by (simp add: generate.simps)
  next
    case MongoDefaultFormFieldGenerator
    have "result_kwarg (MongoDefaultFormFieldGenerator_generate dj self f kw) k = None"
    proof (cases "generate_stringfield dj f kw = Inl NotImplementedError")
      case True
      with strict assms(3,4) show ?thesis
        by (simp add: MongoDefaultFormFieldGenerator_generate.simps bind_def getattr_def
            construct_def fields_classes_def result_kwarg_def map_add_def Let_def
            split: option.split)
    next
      case False
      with strict have "MongoDefaultFormFieldGenerator_generate dj self f kw =
          generate_stringfield dj f kw"
        by (simp add: MongoDefaultFormFieldGenerator_generate.simps
            split: sum.split error.split)
      with assms(2) show ?thesis by simp
    qed
    with MongoDefaultFormFieldGenerator show ?thesis
      by (simp add: generate.simps)
  qed
qed

text \<open>
  C3, as stated, fails. In \<open>generate_stringfield\<close> the test of \<^verbatim>\<open>field.regex\<close> comes
  first and the test of \<^verbatim>\<open>field.choices\<close> is its \<^verbatim>\<open>elif\<close>: for a string descriptor
  with a regular expression and choices the choices branch is not taken, the
  handler calls \<^verbatim>\<open>MongoCharField\<close> with the keyword \<^verbatim>\<open>regex\<close>, and no choice field is
  generated.
\<close>

theorem regex_before_choices_counterexample:
  "has_choices pattern_colour \<and> lower (cname (cls pattern_colour)) = ''stringfield'' \<and>
   generate sample_django MongoFormFieldGenerator pattern_colour Map.empty = Inl TypeError \<and>
   result_class (generate sample_django MongoFormFieldGenerator pattern_colour Map.empty) \<noteq>
     Some TypedChoiceField"
  by (simp add: generate.simps MongoFormFieldGenerator_generate.simps call_method.simps
      handlers_def generate_stringfield_def get_field_label_def get_field_help_text_def
      bind_def getattr_def construct_def fields_classes_def sample_fields_init_def
      pattern_colour_def StringField_def sample_django_def
      has_choices_def result_class_def
      lower_def lower_char_def upper_char_def upper_letters_def lower_letters_def)

text \<open>
  C3, amended. For every integer or boolean descriptor with non-empty choices,
  and for every string descriptor with non-empty choices and no regular
  expression, \<open>generate\<close> of either generator returns a \<^verbatim>\<open>TypedChoiceField\<close>.
\<close>

theorem choices_give_choice_field:
  assumes "base_attributes f" and "has_choices f"
    and "lower (cname (cls f)) = ''intfield'' \<or> lower (cname (cls f)) = ''booleanfield'' \<or>
         lower (cname (cls f)) = ''stringfield'' \<and> max_length f \<noteq> None \<and>
           (\<exists>rx. regex f = Some rx \<and> \<not> truthy rx)"
  shows "result_class (generate dj self f kw) = Some TypedChoiceField"
proof -
  from assms(2) obtain ch xs where ch: "choices f = Some ch" "truthy ch" "py_list ch = Inr xs"
    using choices_ok by blast
  from assms(1) obtain req where req: "required f = Some req"
    by (auto simp: base_attributes_def)
  from assms(3) consider
      (int) "lower (cname (cls f)) = ''intfield''"
    | (bool) "lower (cname (cls f)) = ''booleanfield''"
    | (str) ml rx where "lower (cname (cls f)) = ''stringfield''" "max_length f = Some ml"
        "regex f = Some rx" "\<not> truthy rx"
    by auto
  then show ?thesis
  proof cases
    case int
    from intfield_choices [OF assms(1) ch, of dj kw]
    have "result_class (generate_intfield dj f kw) = Some TypedChoiceField" by simp
    with generate_intfield_kind [OF int this, of self] show ?thesis by simp
  next
    case bool
    from booleanfield_choices [OF assms(1) ch, of dj kw]
    have "result_class (generate_booleanfield dj f kw) = Some TypedChoiceField" by simp
    with generate_booleanfield_kind [OF bool this, of self] show ?thesis by simp
  next
    case str
    from stringfield_choices [OF assms(1) ch req str(2-), of dj kw]
    have "result_class (generate_stringfield dj f kw) = Some TypedChoiceField" by simp
    with generate_stringfield_kind [OF str(1) this, of self] show ?thesis by simp
  qed
qed

lemmas eval_defs =
  base_attributes_def has_choices_def StringField_def IntField_def MongoBooleanField_def
  lower_def lower_char_def upper_letters_def lower_letters_def

theorem choices_give_choice_field_witness:
  "base_attributes rating \<and> has_choices rating \<and> lower (cname (cls rating)) = ''intfield'' \<and>
   result_class (generate sample_django MongoFormFieldGenerator rating Map.empty) =
     Some TypedChoiceField \<and>
   base_attributes flag \<and> has_choices flag \<and> lower (cname (cls flag)) = ''booleanfield'' \<and>
   result_class (generate sample_django MongoFormFieldGenerator flag Map.empty) =
     Some TypedChoiceField \<and>
   base_attributes colour \<and> has_choices colour \<and> lower (cname (cls colour)) = ''stringfield'' \<and>
   max_length colour \<noteq> None \<and> regex colour = Some PNone \<and> \<not> truthy PNone \<and>
   result_class (generate sample_django MongoDefaultFormFieldGenerator colour Map.empty) =
     Some TypedChoiceField"
proof -
  have r: "base_attributes rating \<and> has_choices rating \<and>
      lower (cname (cls rating)) = ''intfield''"
    by (simp add: rating_def eval_defs)
  have f: "base_attributes flag \<and> has_choices flag \<and>
      lower (cname (cls flag)) = ''booleanfield''"
    by (simp add: flag_def eval_defs)
  have c: "base_attributes colour \<and> has_choices colour \<and>
      lower (cname (cls colour)) = ''stringfield'' \<and>
      max_length colour \<noteq> None \<and> regex colour = Some PNone"
    by (simp add: colour_def eval_defs)
  from r f c
    choices_give_choice_field [of rating sample_django MongoFormFieldGenerator Map.empty]
    choices_give_choice_field [of flag sample_django MongoFormFieldGenerator Map.empty]
    choices_give_choice_field [of colour sample_django MongoDefaultFormFieldGenerator Map.empty]
  show ?thesis by simp
qed

text \<open>
  C5. For a string descriptor without a regular expression whose choices are a
  non-empty list, not required, and a caller who sets neither \<^verbatim>\<open>choices\<close> nor
  \<^verbatim>\<open>empty_value\<close>: \<open>generate\<close> returns a \<^verbatim>\<open>TypedChoiceField\<close> whose \<^verbatim>\<open>choices\<close> are
  the one blank pair followed by the descriptor's choices in their order, and
  whose \<^verbatim>\<open>empty_value\<close> is \<^verbatim>\<open>None\<close>. The example of the specification is the
  descriptor \<open>colour\<close>, with the choices \<^verbatim>\<open>[("a","A"),("b","B")]\<close>.
\<close>

theorem blank_choice_prepended:
  assumes "lower (cname (cls f)) = ''stringfield''" and "base_attributes f"
    and "choices f = Some (PList xs)" and "xs \<noteq> []"
    and "required f = Some (PBool False)"
    and "max_length f = Some ml" and "regex f = Some rx" and "\<not> truthy rx"
    and "kw ''choices'' = None" and "kw ''empty_value'' = None"
  shows "result_class (generate dj self f kw) = Some TypedChoiceField \<and>
         result_kwarg (generate dj self f kw) ''choices'' =
           Some (AVal (PList (PTuple [PStr [], PStr ''---------''] # xs))) \<and>
         result_kwarg (generate dj self f kw) ''empty_value'' = Some (AVal PNone)"
proof -
  have list: "py_list (PList xs) = Inr xs"
    by (simp add: py_list_def)
  from assms(4) have nonempty: "truthy (PList xs)"
    by simp
  from stringfield_choices [OF assms(2,3) nonempty list assms(5-8), of dj kw] assms(9,10)
  have handler: "result_class (generate_stringfield dj f kw) = Some TypedChoiceField"
    "result_kwarg (generate_stringfield dj f kw) ''choices'' =
       Some (AVal (PList (PTuple [PStr [], PStr ''---------''] # xs)))"
    "result_kwarg (generate_stringfield dj f kw) ''empty_value'' = Some (AVal PNone)"
    by (simp_all add: BLANK_CHOICE_DASH_def)
  from generate_stringfield_kind [OF assms(1) handler(1), of self] handler
  show ?thesis by simp
qed

theorem blank_choice_prepended_witness:
  "lower (cname (cls colour)) = ''stringfield'' \<and> base_attributes colour \<and>
   choices colour = Some (PList [PTuple [PStr ''a'', PStr ''A''], PTuple [PStr ''b'', PStr ''B'']]) \<and>
   required colour = Some (PBool False) \<and>
   max_length colour = Some PNone \<and> regex colour = Some PNone \<and> \<not> truthy PNone \<and>
   result_class (generate sample_django MongoFormFieldGenerator colour Map.empty) =
     Some TypedChoiceField \<and>
   result_kwarg (generate sample_django MongoFormFieldGenerator colour Map.empty) ''choices'' =
     Some (AVal (PList [PTuple [PStr [], PStr ''---------''],
                        PTuple [PStr ''a'', PStr ''A''], PTuple [PStr ''b'', PStr ''B'']])) \<and>
   result_kwarg (generate sample_django MongoFormFieldGenerator colour Map.empty) ''empty_value'' =
     Some (AVal PNone)"
proof -
  have given: "lower (cname (cls colour)) = ''stringfield''" "base_attributes colour"
    "choices colour = Some (PList [PTuple [PStr ''a'', PStr ''A''], PTuple [PStr ''b'', PStr ''B'']])"
    "[PTuple [PStr ''a'', PStr ''A''], PTuple [PStr ''b'', PStr ''B'']] \<noteq> []"
    "required colour = Some (PBool False)"
    "max_length colour = Some PNone" "regex colour = Some PNone" "\<not> truthy PNone"
    "Map.empty ''choices'' = (None :: argval option)"
    "Map.empty ''empty_value'' = (None :: argval option)"
    by (simp_all add: colour_def eval_defs)
  from blank_choice_prepended [OF given, of sample_django MongoFormFieldGenerator] given
  show ?thesis by simp
qed

text \<open>
  C9. When the caller does not set \<^verbatim>\<open>empty_value\<close>: for an integer or boolean
  descriptor with choices the choice field gets \<^verbatim>\<open>empty_value=None\<close> whatever the
  \<^verbatim>\<open>required\<close> flag is; for a string descriptor with choices \<^verbatim>\<open>empty_value=None\<close>
  is passed when the descriptor is not required (and the choices branch is
  taken, the regular expression being unset), and no \<^verbatim>\<open>empty_value\<close> is passed
  otherwise.
\<close>

theorem empty_value_of_choice_fields:
  assumes "base_attributes f" and "has_choices f" and "kw ''empty_value'' = None"
  shows "(lower (cname (cls f)) = ''intfield'' \<or> lower (cname (cls f)) = ''booleanfield'' \<longrightarrow>
          result_class (generate dj self f kw) = Some TypedChoiceField \<and>
          result_kwarg (generate dj self f kw) ''empty_value'' = Some (AVal PNone)) \<and>
         (lower (cname (cls f)) = ''stringfield'' \<and> max_length f \<noteq> None \<and>
          regex f = Some rx \<and> required f = Some req \<longrightarrow>
          result_kwarg (generate dj self f kw) ''empty_value'' =
            (if \<not> truthy rx \<and> \<not> truthy req then Some (AVal PNone) else None))"
proof (intro conjI impI)
  from assms(2) obtain ch xs where ch: "choices f = Some ch" "truthy ch" "py_list ch = Inr xs"
    using choices_ok by blast
  {
    assume "lower (cname (cls f)) = ''intfield'' \<or> lower (cname (cls f)) = ''booleanfield''"
    then consider (int) "lower (cname (cls f)) = ''intfield''"
      | (bool) "lower (cname (cls f)) = ''booleanfield''"
      by blast
    then have "result_class (generate dj self f kw) = Some TypedChoiceField \<and>
        result_kwarg (generate dj self f kw) ''empty_value'' = Some (AVal PNone)"
    proof cases
      case int
      from intfield_choices [OF assms(1) ch, of dj kw] assms(3)
      have handler: "result_class (generate_intfield dj f kw) = Some TypedChoiceField"
        "result_kwarg (generate_intfield dj f kw) ''empty_value'' = Some (AVal PNone)"
        by simp_all
      from generate_intfield_kind [OF int handler(1), of self] handler
      show ?thesis by simp
    next
      case bool
      from booleanfield_choices [OF assms(1) ch, of dj kw] assms(3)
      have handler: "result_class (generate_booleanfield dj f kw) = Some TypedChoiceField"
        "result_kwarg (generate_booleanfield dj f kw) ''empty_value'' = Some (AVal PNone)"
        by simp_all
      from generate_booleanfield_kind [OF bool handler(1), of self] handler
      show ?thesis by simp
    qed
  }
  then show "lower (cname (cls f)) = ''intfield'' \<or> lower (cname (cls f)) = ''booleanfield'' \<Longrightarrow>
      result_class (generate dj self f kw) = Some TypedChoiceField"
    and "lower (cname (cls f)) = ''intfield'' \<or> lower (cname (cls f)) = ''booleanfield'' \<Longrightarrow>
      result_kwarg (generate dj self f kw) ''empty_value'' = Some (AVal PNone)"
    by blast+
  assume "lower (cname (cls f)) = ''stringfield'' \<and> max_length f \<noteq> None \<and>
          regex f = Some rx \<and> required f = Some req"
  then obtain ml where str: "lower (cname (cls f)) = ''stringfield''" "max_length f = Some ml"
      "regex f = Some rx" "required f = Some req"
    by auto
  show "result_kwarg (generate dj self f kw) ''empty_value'' =
      (if \<not> truthy rx \<and> \<not> truthy req then Some (AVal PNone) else None)"
  proof (cases "truthy rx")
    case True
    from stringfield_regex [OF assms(1) str(2,3) True, of dj kw] assms(3)
    have handler: "result_kwarg (generate_stringfield dj f kw) ''empty_value'' = None"
      by simp
    from generate_stringfield_kwarg_none [OF str(1) handler assms(3), of self] True
    show ?thesis by simp
  next
    case False
    from stringfield_choices [OF assms(1) ch str(4,2,3) False, of dj kw] assms(3)
    have handler: "result_class (generate_stringfield dj f kw) = Some TypedChoiceField"
      "result_kwarg (generate_stringfield dj f kw) ''empty_value'' =
         (if truthy req then None else Some (AVal PNone))"
      by simp_all
    from generate_stringfield_kind [OF str(1) handler(1), of self] handler False
    show ?thesis by simp
  qed
qed

theorem empty_value_of_choice_fields_witness:
  "base_attributes rating \<and> has_choices rating \<and> lower (cname (cls rating)) = ''intfield'' \<and>
   required rating = Some (PBool True) \<and>
   result_kwarg (generate sample_django MongoFormFieldGenerator rating Map.empty) ''empty_value'' =
     Some (AVal PNone) \<and>
   base_attributes flag \<and> has_choices flag \<and> lower (cname (cls flag)) = ''booleanfield'' \<and>
   required flag = Some (PBool False) \<and>
   result_kwarg (generate sample_django MongoFormFieldGenerator flag Map.empty) ''empty_value'' =
     Some (AVal PNone) \<and>
   base_attributes colour \<and> has_choices colour \<and> lower (cname (cls colour)) = ''stringfield'' \<and>
   required colour = Some (PBool False) \<and>
   result_kwarg (generate sample_django MongoFormFieldGenerator colour Map.empty) ''empty_value'' =
     Some (AVal PNone) \<and>
   base_attributes size_code \<and> has_choices size_code \<and>
   lower (cname (cls size_code)) = ''stringfield'' \<and> required size_code = Some (PBool True) \<and>
   result_kwarg (generate sample_django MongoFormFieldGenerator size_code Map.empty) ''empty_value'' =
     None"
proof -
  have r: "base_attributes rating \<and> has_choices rating \<and>
      lower (cname (cls rating)) = ''intfield'' \<and> required rating = Some (PBool True)"
    by (simp add: rating_def eval_defs)
  have f: "base_attributes flag \<and> has_choices flag \<and>
      lower (cname (cls flag)) = ''booleanfield'' \<and> required flag = Some (PBool False)"
    by (simp add: flag_def eval_defs)
  have c: "base_attributes colour \<and> has_choices colour \<and>
      lower (cname (cls colour)) = ''stringfield'' \<and> required colour = Some (PBool False) \<and>
      max_length colour \<noteq> None \<and> regex colour = Some PNone"
    by (simp add: colour_def eval_defs)
  have s: "base_attributes size_code \<and> has_choices size_code \<and>
      lower (cname (cls size_code)) = ''stringfield'' \<and> required size_code = Some (PBool True) \<and>
      max_length size_code \<noteq> None \<and> regex size_code = Some PNone"
    by (simp add: size_code_def eval_defs)
  from r f c s
    empty_value_of_choice_fields [of rating Map.empty sample_django MongoFormFieldGenerator]
    empty_value_of_choice_fields [of flag Map.empty sample_django MongoFormFieldGenerator]
    empty_value_of_choice_fields [of colour Map.empty sample_django MongoFormFieldGenerator
      PNone "PBool False"]
    empty_value_of_choice_fields [of size_code Map.empty sample_django MongoFormFieldGenerator
      PNone "PBool True"]
  show ?thesis by simp
qed




section \<open>List descriptors\<close>

lemma generate_exact_result:
  assumes "''generate_'' @ lower (cname (cls f)) \<in> set handlers"
    and "call_method dj self (''generate_'' @ lower (cname (cls f))) f kw \<noteq>
           Inl NotImplementedError \<or> self = MongoFormFieldGenerator"
  shows "generate dj self f kw =
         call_method dj self (''generate_'' @ lower (cname (cls f))) f kw"
proof -
  from assms(1) have strict: "MongoFormFieldGenerator_generate dj self f kw =
      call_method dj self (''generate_'' @ lower (cname (cls f))) f kw"
    by (simp add: MongoFormFieldGenerator_generate.simps)
  show ?thesis
  proof (cases self)
    case MongoFormFieldGenerator
    with strict show ?thesis by (simp add: generate.simps)
  next
    case MongoDefaultFormFieldGenerator
    with assms(2) strict show ?thesis
      by (simp add: generate.simps MongoDefaultFormFieldGenerator_generate.simps
          split: sum.split error.split)
  qed
qed

lemma generate_listfield_kind:
  assumes "lower (cname (cls f)) = ''listfield''"
    and "generate_listfield dj self f kw \<noteq> Inl NotImplementedError \<or>
         self = MongoFormFieldGenerator"
  shows "generate dj self f kw = generate_listfield dj self f kw"
proof -
  have handler: "call_method dj self (''generate_'' @ lower (cname (cls f))) f kw =
      generate_listfield dj self f kw"
    using assms(1) by (simp add: call_method.simps)
  have known: "''generate_'' @ lower (cname (cls f)) \<in> set handlers"
    using assms(1) by (simp add: handlers_def)
  from assms(2) have "call_method dj self (''generate_'' @ lower (cname (cls f))) f kw \<noteq>
      Inl NotImplementedError \<or> self = MongoFormFieldGenerator"
    unfolding handler .
  from generate_exact_result [OF known this] show ?thesis
    unfolding handler .
qed

lemma lenient_generate_not_unsupported:
  "generate dj MongoDefaultFormFieldGenerator f kw \<noteq> Inl NotImplementedError"
  by (simp add: generate.simps lenient_not_unsupported)

lemma result_class_not_raised: "result_class r = Some c \<Longrightarrow> r \<noteq> Inl e"
  by (cases r) (simp_all add: result_class_def)

text \<open>The four branches of \<open>generate_listfield\<close>.\<close>

lemma listfield_branches:
  assumes "base_attributes f" and "field f = Some inner" and "choices inner = Some ch"
  shows "truthy ch \<Longrightarrow>
           result_class (generate_listfield dj self f kw) = Some MultipleChoiceField \<and>
           (kw ''choices'' = None \<longrightarrow>
              result_kwarg (generate_listfield dj self f kw) ''choices'' = Some (AVal ch))"
    and "\<not> truthy ch \<Longrightarrow> issubclass (cls inner) MongoReferenceField \<Longrightarrow>
         document_type inner = Some doc \<Longrightarrow>
         \<forall>a. fields_init dj DocumentMultipleChoiceField [AObjects doc] a = None \<Longrightarrow>
           result_class (generate_listfield dj self f kw) = Some DocumentMultipleChoiceField \<and>
           result_args (generate_listfield dj self f kw) = Some [AObjects doc]"
    and "\<not> truthy ch \<Longrightarrow> \<not> issubclass (cls inner) MongoReferenceField \<Longrightarrow>
         \<not> issubclass (cls inner) MongoEmbeddedDocumentField \<Longrightarrow>
         generate dj self inner Map.empty = Inr (Some ff) \<Longrightarrow>
         \<forall>a. fields_init dj ListField [AClass (form_class ff)] a = None \<Longrightarrow>
           result_class (generate_listfield dj self f kw) = Some ListField \<and>
           result_args (generate_listfield dj self f kw) = Some [AClass (form_class ff)]"
    and "\<not> truthy ch \<Longrightarrow> \<not> issubclass (cls inner) MongoReferenceField \<Longrightarrow>
         \<not> issubclass (cls inner) MongoEmbeddedDocumentField \<Longrightarrow>
         generate dj self inner Map.empty = Inl e \<Longrightarrow>
           generate_listfield dj self f kw = Inl e"
    and "\<not> truthy ch \<Longrightarrow> \<not> issubclass (cls inner) MongoReferenceField \<Longrightarrow>
         issubclass (cls inner) MongoEmbeddedDocumentField \<Longrightarrow>
           generate_listfield dj self f kw = Inr None"
proof -
  from assms(1) obtain l where l: "get_field_label dj f = Inr l"
    using label_ok by blast
  from assms(1) obtain h where h: "get_field_help_text dj f = Inr h"
    using help_ok by blast
  from assms(1) obtain req where req: "required f = Some req"
    by (auto simp: base_attributes_def)
  note ev = generate_listfield.simps assms(2,3) l h req bind_def getattr_def construct_def
    fields_classes_def class_of_def result_class_def result_kwarg_def result_args_def
    map_add_def Let_def
  show "truthy ch \<Longrightarrow>
           result_class (generate_listfield dj self f kw) = Some MultipleChoiceField \<and>
           (kw ''choices'' = None \<longrightarrow>
              result_kwarg (generate_listfield dj self f kw) ''choices'' = Some (AVal ch))"
    by (simp add: ev)
  show "\<not> truthy ch \<Longrightarrow> issubclass (cls inner) MongoReferenceField \<Longrightarrow>
         document_type inner = Some doc \<Longrightarrow>
         \<forall>a. fields_init dj DocumentMultipleChoiceField [AObjects doc] a = None \<Longrightarrow>
           result_class (generate_listfield dj self f kw) = Some DocumentMultipleChoiceField \<and>
           result_args (generate_listfield dj self f kw) = Some [AObjects doc]"
    by (simp add: ev)
  show "\<not> truthy ch \<Longrightarrow> \<not> issubclass (cls inner) MongoReferenceField \<Longrightarrow>
         \<not> issubclass (cls inner) MongoEmbeddedDocumentField \<Longrightarrow>
         generate dj self inner Map.empty = Inr (Some ff) \<Longrightarrow>
         \<forall>a. fields_init dj ListField [AClass (form_class ff)] a = None \<Longrightarrow>
           result_class (generate_listfield dj self f kw) = Some ListField \<and>
           result_args (generate_listfield dj self f kw) = Some [AClass (form_class ff)]"
    by (simp add: ev)
  show "\<not> truthy ch \<Longrightarrow> \<not> issubclass (cls inner) MongoReferenceField \<Longrightarrow>
         \<not> issubclass (cls inner) MongoEmbeddedDocumentField \<Longrightarrow>
         generate dj self inner Map.empty = Inl e \<Longrightarrow>
           generate_listfield dj self f kw = Inl e"
    by (simp add: ev)
  show "\<not> truthy ch \<Longrightarrow> \<not> issubclass (cls inner) MongoReferenceField \<Longrightarrow>
         issubclass (cls inner) MongoEmbeddedDocumentField \<Longrightarrow>
           generate_listfield dj self f kw = Inr None"
    by (simp add: ev)
qed

lemmas list_defs =
  list_of_def MongoListField_def ComplexBaseField_def MongoReferenceField_def
  MongoEmbeddedDocumentField_def GeoPointField_def BaseField_def object_def

lemmas dispatch_defs =
  generate.simps MongoFormFieldGenerator_generate.simps call_method.simps
  generate_listfield.simps handlers_def field_map_def bind_def getattr_def





end
